theory Spec2Isabelle
  imports Main
begin

section \<open>JavaScript values used by the handlers\<close>

text \<open>
  Numbers are modelled as unbounded integers: every number the handlers compute with is a
  byte offset, an object size, a device count or a millisecond timestamp, all far below
  \<open>2^53\<close>, where the doubles of the runtime are exact. Strings are lists of characters;
  a character stands for one code unit of the runtime's strings, and every operation
  modelled here works code unit by code unit.
\<close>

text \<open>The class \<open>\d\<close> of a regular expression without the unicode flag: \<open>[0-9]\<close>.\<close>

definition isDigit :: "char \<Rightarrow> bool" where
  "isDigit c \<longleftrightarrow> c \<in> set ''0123456789''"

definition digitVal :: "char \<Rightarrow> nat" where
  "digitVal c = of_char c - 48"

definition digitsVal :: "string \<Rightarrow> nat" where
  "digitsVal s = foldl (\<lambda>a c. 10 * a + digitVal c) 0 s"

text \<open>
  The white space that \<open>parseInt\<close> and \<open>trim\<close> skip, within the characters modelled:
  tab, line feed, vertical tab, form feed, carriage return, space, no-break space.
\<close>

definition isSpace :: "char \<Rightarrow> bool" where
  "isSpace c \<longleftrightarrow> of_char c \<in> set [9, 10, 11, 12, 13, 32, 160 :: nat]"

text \<open>
  \<open>parseInt(s, 10)\<close> on a string: leading white space is skipped, one sign is read, then
  the longest prefix of decimal digits; \<open>None\<close> is \<open>NaN\<close>.
\<close>

definition parseInt :: "string \<Rightarrow> int option" where
  "parseInt s =
     (let t = dropWhile isSpace s;
          neg = (t \<noteq> [] \<and> hd t = CHR ''-'');
          u = (if t \<noteq> [] \<and> (hd t = CHR ''-'' \<or> hd t = CHR ''+'') then tl t else t);
          ds = takeWhile isDigit u
      in if ds = [] then None
         else Some (if neg then - int (digitsVal ds) else int (digitsVal ds)))"

text \<open>\<open>String(n)\<close> and template interpolation of an integral number.\<close>

definition digitChar :: "nat \<Rightarrow> char" where
  "digitChar n = ''0123456789'' ! n"

fun showNat :: "nat \<Rightarrow> string" where
  "showNat n =
     (if n < 10 then [digitChar n]
      else showNat (n div 10) @ [digitChar (n mod 10)])"

declare showNat.simps [simp del]

definition showInt :: "int \<Rightarrow> string" where
  "showInt i = (if i < 0 then CHR ''-'' # showNat (nat (- i)) else showNat (nat i))"

section \<open>Streaming proxy: \<open>pages/api/videos/[...key].js\<close>\<close>

text \<open>
  The object store is external: \<open>headObject\<close> answers the metadata request with the
  object's \<open>ContentLength\<close>, \<open>getObject\<close> answers a fetch (with or without a
  \<open>Range\<close>) with a body and its \<open>ContentLength\<close>; either may throw.
\<close>

datatype store_error = NotFound | OtherError

record 'b s3_env =
  configured :: bool
  headObject :: "string \<Rightarrow> store_error + nat"
  getObject :: "string \<Rightarrow> string option \<Rightarrow> store_error + ('b \<times> nat)"

record video_request =
  vmethod :: string
  authorized :: bool
  key :: "string list"
  range :: "string option"

text \<open>
  The response: status, the \<open>error\<close> of a JSON body, the two headers the range logic
  computes, and the body piped from the store (absent for \<open>HEAD\<close>). The headers
  \<open>Content-Type\<close>, \<open>Accept-Ranges\<close> and \<open>Cache-Control\<close> do not depend on the range
  and are left out.
\<close>

record 'b video_response =
  vstatus :: nat
  verror :: "string option"
  contentRange :: "string option"
  contentLength :: "int option"
  vbody :: "'b option"

definition jsonError :: "nat \<Rightarrow> string \<Rightarrow> 'b video_response" where
  "jsonError st e =
     \<lparr>vstatus = st, verror = Some e, contentRange = None, contentLength = None, vbody = None\<rparr>"

text \<open>\<open>res.setHeader('Content-Range', `bytes */${totalSize}`); res.status(416).end()\<close>\<close>

definition rangeNotSatisfiable :: "int \<Rightarrow> 'b video_response" where
  "rangeNotSatisfiable totalSize =
     \<lparr>vstatus = 416, verror = None,
      contentRange = Some (''bytes */'' @ showInt totalSize),
      contentLength = None, vbody = None\<rparr>"

text \<open>
  \<open>rangeHeader.match(/^bytes=(\d*)-(\d*)$/)\<close>: the two captured groups, or \<open>None\<close>
  when the header does not match. The first group is greedy, and the character after it
  must be the dash.
\<close>

definition matchRange :: "string \<Rightarrow> (string \<times> string) option" where
  "matchRange h =
     (if take 6 h = ''bytes='' then
        (case dropWhile isDigit (drop 6 h) of
           [] \<Rightarrow> None
         | c # g2 \<Rightarrow>
             if c = CHR ''-'' \<and> list_all isDigit g2
             then Some (takeWhile isDigit (drop 6 h), g2) else None)
      else None)"

text \<open>
  \<open>parseInt\<close> of a captured group; a group is a string of digits, so the result is a
  number whenever the group is not empty.
\<close>

definition groupInt :: "string \<Rightarrow> int" where
  "groupInt g = (case parseInt g of Some n \<Rightarrow> n | None \<Rightarrow> 0)"

text \<open>
  Lines 140 to 156: the bounds \<open>(start, end)\<close> for the three forms of the header, or
  \<open>None\<close> where the handler answers 416 because both groups are empty.
\<close>

definition rangeBounds :: "string \<times> string \<Rightarrow> int \<Rightarrow> (int \<times> int) option" where
  "rangeBounds m totalSize =
     (if fst m \<noteq> [] \<and> snd m \<noteq> [] then Some (groupInt (fst m), groupInt (snd m))
      else if fst m \<noteq> [] then
        Some (groupInt (fst m), min (groupInt (fst m) + 5 * 1024 * 1024 - 1) (totalSize - 1))
      else if snd m \<noteq> [] then
        Some (max 0 (totalSize - groupInt (snd m)), totalSize - 1)
      else None)"

text \<open>\<open>key.join('/')\<close>\<close>

fun joinSlash :: "string list \<Rightarrow> string" where
  "joinSlash [] = []"
| "joinSlash [s] = s"
| "joinSlash (s # t # ss) = s @ ''/'' @ joinSlash (t # ss)"

text \<open>The branch of a request with a \<open>Range\<close> header, from line 117.\<close>

definition rangeRequest :: "'b s3_env \<Rightarrow> video_request \<Rightarrow> string \<Rightarrow> string \<Rightarrow> 'b video_response" where
  "rangeRequest env req objectKey rangeHeader =
     (case headObject env objectKey of
        Inl NotFound \<Rightarrow> jsonError 404 ''Video not found''
      | Inl OtherError \<Rightarrow> jsonError 500 ''Failed to stream video''
      | Inr len \<Rightarrow>
          (let totalSize = int len in
           case matchRange rangeHeader of
             None \<Rightarrow> rangeNotSatisfiable totalSize
           | Some m \<Rightarrow>
               (case rangeBounds m totalSize of
                  None \<Rightarrow> rangeNotSatisfiable totalSize
                | Some (start, end) \<Rightarrow>
                    if start \<ge> totalSize \<or> end \<ge> totalSize
                    then rangeNotSatisfiable totalSize
                    else
                      (case getObject env objectKey
                              (Some (''bytes='' @ showInt start @ ''-'' @ showInt end)) of
                         Inl e \<Rightarrow> jsonError 500 ''Failed to stream video''
                       | Inr (stream, n) \<Rightarrow>
                           \<lparr>vstatus = 206, verror = None,
                            contentRange = Some (''bytes '' @ showInt start @ ''-''
                                                 @ showInt end @ ''/'' @ showInt totalSize),
                            contentLength = Some (end - start + 1),
                            vbody = (if vmethod req = ''HEAD'' then None else Some stream)\<rparr>))))"

text \<open>The branch of a request without a \<open>Range\<close> header, from line 198.\<close>

definition fullRequest :: "'b s3_env \<Rightarrow> video_request \<Rightarrow> string \<Rightarrow> 'b video_response" where
  "fullRequest env req objectKey =
     (case getObject env objectKey None of
        Inl NotFound \<Rightarrow> jsonError 404 ''Video not found''
      | Inl OtherError \<Rightarrow> jsonError 500 ''Failed to stream video''
      | Inr (stream, n) \<Rightarrow>
          \<lparr>vstatus = 200, verror = None, contentRange = None,
           contentLength = Some (int n),
           vbody = (if vmethod req = ''HEAD'' then None else Some stream)\<rparr>)"

text \<open>The handler. A header that is absent or empty is falsy and takes the full branch.\<close>

definition videos_handler :: "'b s3_env \<Rightarrow> video_request \<Rightarrow> 'b video_response" where
  "videos_handler env req =
     (if vmethod req \<noteq> ''GET'' \<and> vmethod req \<noteq> ''HEAD'' then jsonError 405 ''Method not allowed''
      else if \<not> authorized req then jsonError 401 ''Unauthorized''
      else if \<not> configured env then jsonError 500 ''R2 configuration is missing''
      else if key req = [] then jsonError 400 ''Video key is required''
      else
        (case range req of
           None \<Rightarrow> fullRequest env req (joinSlash (key req))
         | Some rangeHeader \<Rightarrow>
             if rangeHeader = [] then fullRequest env req (joinSlash (key req))
             else rangeRequest env req (joinSlash (key req)) rangeHeader))"

text \<open>
  A store holding one object of ten bytes under the key \<open>videos/1_a_v.mp4\<close>; the body
  it hands out is named by the range that was asked for.
\<close>

definition tenByteStore :: "string s3_env" where
  "tenByteStore =
     \<lparr>configured = True,
      headObject = (\<lambda>k. if k = ''videos/1_a_v.mp4'' then Inr 10 else Inl NotFound),
      getObject = (\<lambda>k r. if k = ''videos/1_a_v.mp4''
                           then Inr (case r of None \<Rightarrow> ''all'' | Some s \<Rightarrow> s, 10)
                           else Inl NotFound)\<rparr>"

definition rangeGet :: "string \<Rightarrow> video_request" where
  "rangeGet h =
     \<lparr>vmethod = ''GET'', authorized = True, key = [''videos'', ''1_a_v.mp4''], range = Some h\<rparr>"

section \<open>Documents of the store\<close>

text \<open>
  A value of a request body: a number, a string, something else that is truthy (an object,
  an array, \<open>true\<close>; kept with the string that \<open>String(...)\<close> makes of it), or nothing
  (absent, \<open>null\<close>, \<open>false\<close>). Account identifiers are stored as numbers or as
  strings, so they are values of this type too.
\<close>

datatype js_val = JUndefined | JNum int | JStr string | JOther string

definition truthy :: "js_val \<Rightarrow> bool" where
  "truthy v = (case v of JUndefined \<Rightarrow> False | JNum n \<Rightarrow> n \<noteq> 0 | JStr s \<Rightarrow> s \<noteq> [] | JOther s \<Rightarrow> True)"

text \<open>\<open>x || d\<close> on an optional string field: absent and empty are both falsy.\<close>

definition orElse :: "string option \<Rightarrow> string \<Rightarrow> string" where
  "orElse x d = (case x of None \<Rightarrow> d | Some s \<Rightarrow> if s = [] then d else s)"

definition trim :: "string \<Rightarrow> string" where
  "trim s = rev (dropWhile isSpace (rev (dropWhile isSpace s)))"

text \<open>A device entry of \<open>device_limitations.devices\<close>; a field may be absent.\<close>

record device =
  device_id :: "string option"
  ip :: "string option"
  browser :: "string option"
  os :: "string option"
  device_type :: "string option"
  first_login :: "string option"
  last_login :: "string option"

text \<open>
  \<open>allowed_devices\<close> is \<open>None\<close> when it is absent or not a number, \<open>devices\<close> when it
  is absent or not an array.
\<close>

record device_limitations =
  allowed_devices :: "int option"
  dl_last_login :: "string option"
  devices :: "device list option"

record user =
  oid :: nat
  uid :: js_val
  password :: string
  role :: string
  uname :: string
  account_state :: "string option"
  limitations :: "device_limitations option"

record student =
  sid :: js_val
  s_account_state :: "string option"

text \<open>The expiration is kept as the milliseconds that \<open>new Date(...).getTime()\<close> gives.\<close>

record subscription =
  active :: bool
  date_of_expiration :: "int option"
  date_of_subscription :: "string option"
  subscription_duration :: "string option"
  cost :: "string option"
  sub_note :: "string option"

record db =
  users :: "user list"
  students :: "student list"
  subscription :: "subscription option"

text \<open>
  \<open>updateOne(filter, update)\<close> changes the first document that matches and leaves a
  collection without a match as it is.
\<close>

fun updateOne :: "('a \<Rightarrow> bool) \<Rightarrow> ('a \<Rightarrow> 'a) \<Rightarrow> 'a list \<Rightarrow> 'a list" where
  "updateOne P f [] = []"
| "updateOne P f (x # xs) = (if P x then f x # xs else x # updateOne P f xs)"

text \<open>\<open>Array.prototype.findIndex\<close>; \<open>None\<close> is \<open>-1\<close>.\<close>

fun findIndex :: "('a \<Rightarrow> bool) \<Rightarrow> 'a list \<Rightarrow> nat option" where
  "findIndex P [] = None"
| "findIndex P (x # xs) = (if P x then Some 0 else map_option Suc (findIndex P xs))"

section \<open>Authentication handler (login)\<close>

text \<open>
  What the handler reads from outside the request: the two feature flags
  (\<open>SUBSCRIPTION_ENABLED\<close>, \<open>isDeviceLimitationsEnabled()\<close>), the password check of
  the hashing library, the clock (\<open>now.getTime()\<close>) and \<open>formatDateTime(now)\<close>.
  The calls to the document store are taken to succeed; a call that throws ends in the
  outer \<open>catch\<close> with status 500.
\<close>

record login_env =
  subscriptionEnabled :: bool
  deviceLimitationsEnabled :: bool
  bcryptCompare :: "string \<Rightarrow> string \<Rightarrow> bool"
  nowTime :: int
  nowFormatted :: string

text \<open>The names the user-agent parser reports; a name may be missing.\<close>

record ua_result =
  ua_browser :: "string option"
  ua_os :: "string option"
  ua_device :: "string option"

text \<open>
  The request: method, the three body fields, the \<open>x-forwarded-for\<close> header (as one
  string, the form in which the server hands it over), the socket's remote address and the
  parser's result for the \<open>user-agent\<close> header (\<open>None\<close> when the parser throws).
\<close>

record login_request =
  lmethod :: string
  assistant_id :: js_val
  req_password :: js_val
  req_device_id :: js_val
  forwardedFor :: "string option"
  remoteAddress :: "string option"
  userAgent :: "ua_result option"

text \<open>
  \<open>LoginOk role\<close> is the answer \<open>{success: true, role}\<close> with the session cookie;
  \<open>LoginError status error\<close> is \<open>res.status(status).json({error})\<close>.
\<close>

datatype login_response = LoginError nat string | LoginOk string

text \<open>Lines 670 to 690: the identifier as a number, where it has one, and as a string.\<close>

definition idStr :: "string \<Rightarrow> string" where
  "idStr s = trim (filter (\<lambda>c. c \<noteq> CHR ''$'') s)"









text \<open>Lines 813 to 849: what the request says about the device.\<close>

definition incomingDeviceId :: "login_request \<Rightarrow> string" where
  "incomingDeviceId req =
     (case req_device_id req of
        JStr s \<Rightarrow> if trim s \<noteq> [] then trim s else ''unknown-device''
      | _ \<Rightarrow> ''unknown-device'')"

definition requestIp :: "login_request \<Rightarrow> string" where
  "requestIp req =
     (let ipFromHeader =
            trim (takeWhile (\<lambda>c. c \<noteq> CHR '','')
                    (case forwardedFor req of None \<Rightarrow> [] | Some h \<Rightarrow> h))
      in if ipFromHeader \<noteq> [] then ipFromHeader else orElse (remoteAddress req) ''unknown'')"

definition requestBrowser :: "login_request \<Rightarrow> string" where
  "requestBrowser req =
     (case userAgent req of None \<Rightarrow> ''Unknown'' | Some r \<Rightarrow> orElse (ua_browser r) ''Unknown'')"

definition requestOs :: "login_request \<Rightarrow> string" where
  "requestOs req =
     (case userAgent req of None \<Rightarrow> ''Unknown'' | Some r \<Rightarrow> orElse (ua_os r) ''Unknown'')"

definition requestDeviceType :: "login_request \<Rightarrow> string" where
  "requestDeviceType req =
     (case userAgent req of None \<Rightarrow> ''desktop'' | Some r \<Rightarrow> orElse (ua_device r) ''desktop'')"

text \<open>Lines 874 to 882: the record pushed for a device seen for the first time.\<close>

definition newDevice :: "login_env \<Rightarrow> login_request \<Rightarrow> device" where
  "newDevice env req =
     \<lparr>device_id = Some (incomingDeviceId req),
      ip = Some (requestIp req),
      browser = Some (requestBrowser req),
      os = Some (requestOs req),
      device_type = Some (requestDeviceType req),
      first_login = Some (nowFormatted env),
      last_login = Some (nowFormatted env)\<rparr>"

text \<open>Lines 885 to 892: the record that replaces a device already in the list.\<close>

definition touchDevice :: "login_env \<Rightarrow> login_request \<Rightarrow> device \<Rightarrow> device" where
  "touchDevice env req d =
     d\<lparr>ip := Some (orElse (ip d) (requestIp req)),
       browser := Some (orElse (browser d) (requestBrowser req)),
       os := Some (orElse (os d) (requestOs req)),
       device_type := Some (orElse (device_type d) (requestDeviceType req)),
       last_login := Some (nowFormatted env)\<rparr>"

text \<open>Lines 851 to 859.\<close>

definition allowedDevices :: "user \<Rightarrow> int" where
  "allowedDevices u =
     (case limitations u of
        None \<Rightarrow> 1
      | Some l \<Rightarrow> (case allowed_devices l of Some n \<Rightarrow> n | None \<Rightarrow> 1))"

definition userDevices :: "user \<Rightarrow> device list" where
  "userDevices u =
     (case limitations u of
        None \<Rightarrow> []
      | Some l \<Rightarrow> (case devices l of Some ds \<Rightarrow> ds | None \<Rightarrow> []))"

text \<open>Lines 895 to 904: the write of the device list.\<close>

definition writeLimitations :: "login_env \<Rightarrow> user \<Rightarrow> device list \<Rightarrow> db \<Rightarrow> db" where
  "writeLimitations env u ds d =
     d\<lparr>users :=
         updateOne (\<lambda>x. oid x = oid u)
           (\<lambda>x. x\<lparr>limitations :=
                     Some \<lparr>allowed_devices = Some (allowedDevices u),
                           dl_last_login = Some (nowFormatted env),
                           devices = Some ds\<rparr>\<rparr>)
           (users d)\<rparr>"

text \<open>Lines 861 to 904: the device check and the registration.\<close>

definition deviceGate ::
  "login_env \<Rightarrow> login_request \<Rightarrow> user \<Rightarrow> db \<Rightarrow> login_response option \<times> db" where
  "deviceGate env req u d =
     (case findIndex (\<lambda>x. device_id x = Some (incomingDeviceId req)) (userDevices u) of
        None \<Rightarrow>
          if int (length (userDevices u)) \<ge> allowedDevices u
          then (Some (LoginError 403 ''device_limit_reached''), d)
          else (None, writeLimitations env u (userDevices u @ [newDevice env req]) d)
      | Some i \<Rightarrow>
          (None, writeLimitations env u
                   ((userDevices u)[i := touchDevice env req (userDevices u ! i)]) d))"



definition stringOf :: "js_val \<Rightarrow> string" where
  "stringOf v = (case v of JStr s \<Rightarrow> s | _ \<Rightarrow> [])"


section \<open>Device administration: \<open>pages/api/students/devices.js\<close> and \<open>pages/api/assistants/devices.js\<close>\<close>

text \<open>
  \<open>authMiddleware\<close> is outside these files: it throws, or gives no user, or a user with
  a role.
\<close>

datatype auth_result = AuthThrows | AuthNone | AuthUser string

text \<open>
  The request: the body fields of \<open>PATCH\<close> and the query fields of \<open>DELETE\<close> (a query
  field is a string or absent).
\<close>

record devices_request =
  dmethod :: string
  auth :: auth_result
  body_id :: js_val
  body_allowed_devices :: js_val
  query_id :: "string option"
  query_device_id :: "string option"

text \<open>
  \<open>DevSuccess\<close> is \<open>{success: true}\<close>; \<open>DevListing\<close> stands for the page of the
  \<open>GET\<close> branch, which reads the store and is not described further.
\<close>

datatype devices_response = DevError nat string | DevSuccess | DevListing

text \<open>\<open>parseInt(v, 10)\<close> on a value: the value is made a string first.\<close>

definition parseIntVal :: "js_val \<Rightarrow> int option" where
  "parseIntVal v =
     (case v of JUndefined \<Rightarrow> None | JNum n \<Rightarrow> Some n | JStr s \<Rightarrow> parseInt s
      | JOther s \<Rightarrow> parseInt s)"

definition parseIntQuery :: "string option \<Rightarrow> int option" where
  "parseIntQuery q = (case q of None \<Rightarrow> None | Some s \<Rightarrow> parseInt s)"

text \<open>
  \<open>$set: {'device_limitations.allowed_devices': allowed}\<close>: the one field is written;
  the sub-document is created when the user has none.
\<close>

definition setAllowedDevices :: "int \<Rightarrow> user \<Rightarrow> user" where
  "setAllowedDevices n u =
     u\<lparr>limitations :=
         Some (case limitations u of
                 None \<Rightarrow> \<lparr>allowed_devices = Some n, dl_last_login = None, devices = None\<rparr>
               | Some l \<Rightarrow> l\<lparr>allowed_devices := Some n\<rparr>)\<rparr>"

text \<open>
  \<open>$pull: {'device_limitations.devices': {device_id}}\<close>: every entry of the array whose
  \<open>device_id\<close> equals the given one is removed; without the array nothing changes.
\<close>

definition pullDevice :: "string \<Rightarrow> user \<Rightarrow> user" where
  "pullDevice did u =
     u\<lparr>limitations :=
         map_option
           (\<lambda>l. l\<lparr>devices := map_option (filter (\<lambda>x. device_id x \<noteq> Some did)) (devices l)\<rparr>)
           (limitations u)\<rparr>"

text \<open>The filter \<open>{id: numericId, role: 'student'}\<close> of \<open>students/devices.js\<close>.\<close>

definition studentsFilter :: "int \<Rightarrow> user \<Rightarrow> bool" where
  "studentsFilter numericId u \<longleftrightarrow> uid u = JNum numericId \<and> role u = ''student''"

text \<open>The \<open>PATCH\<close> and \<open>DELETE\<close> branches of \<open>students/devices.js\<close>, lines 259 to 301.\<close>

definition students_patch :: "db \<Rightarrow> devices_request \<Rightarrow> devices_response \<times> db" where
  "students_patch d req =
     (case parseIntVal (body_id req) of
        None \<Rightarrow> (DevError 400 ''invalid_id'', d)
      | Some numericId \<Rightarrow>
          if numericId = 0 then (DevError 400 ''invalid_id'', d)
          else
            (case parseIntVal (body_allowed_devices req) of
               None \<Rightarrow> (DevError 400 ''invalid_allowed_devices'', d)
             | Some allowed \<Rightarrow>
                 if allowed \<le> 0 then (DevError 400 ''invalid_allowed_devices'', d)
                 else
                   (DevSuccess,
                    d\<lparr>users :=
                        updateOne (studentsFilter numericId)
                          (setAllowedDevices allowed) (users d)\<rparr>)))"

definition students_delete :: "db \<Rightarrow> devices_request \<Rightarrow> devices_response \<times> db" where
  "students_delete d req =
     (case parseIntQuery (query_id req) of
        None \<Rightarrow> (DevError 400 ''invalid_parameters'', d)
      | Some numericId \<Rightarrow>
          (case query_device_id req of
             None \<Rightarrow> (DevError 400 ''invalid_parameters'', d)
           | Some did \<Rightarrow>
               if numericId = 0 \<or> did = [] then (DevError 400 ''invalid_parameters'', d)
               else
                 (DevSuccess,
                  d\<lparr>users :=
                      updateOne (studentsFilter numericId)
                        (pullDevice did) (users d)\<rparr>)))"

text \<open>The part of the handler both files share: lines 82 to 99 and the dispatch on the method.\<close>

definition devices_handler ::
  "(db \<Rightarrow> devices_request \<Rightarrow> devices_response \<times> db) \<Rightarrow>
   (db \<Rightarrow> devices_request \<Rightarrow> devices_response \<times> db) \<Rightarrow>
   bool \<Rightarrow> db \<Rightarrow> devices_request \<Rightarrow> devices_response \<times> db" where
  "devices_handler patch delete enabled d req =
     (if \<not> enabled then (DevError 400 ''device_limitations_disabled'', d)
      else
        (case auth req of
           AuthThrows \<Rightarrow> (DevError 500 ''internal_server_error'', d)
         | AuthNone \<Rightarrow> (DevError 403 ''forbidden'', d)
         | AuthUser r \<Rightarrow>
             if r \<notin> set [''admin'', ''developer'', ''assistant''] then (DevError 403 ''forbidden'', d)
             else if dmethod req = ''GET'' then (DevListing, d)
             else if dmethod req = ''PATCH'' then patch d req
             else if dmethod req = ''DELETE'' then delete d req
             else (DevError 405 ''Method not allowed'', d)))"

definition students_devices_handler :: "bool \<Rightarrow> db \<Rightarrow> devices_request \<Rightarrow> devices_response \<times> db" where
  "students_devices_handler = devices_handler students_patch students_delete"

text \<open>
  \<open>assistants/devices.js\<close>, lines 262 to 275 and 295 to 309: the filter on \<open>id\<close>. A
  number is matched as it is; a string of digits matches the number and the string.
\<close>

definition idQuery :: "js_val \<Rightarrow> js_val \<Rightarrow> bool" where
  "idQuery v x =
     (case v of
        JNum n \<Rightarrow> x = JNum n
      | JUndefined \<Rightarrow> False
      | JStr s \<Rightarrow>
          if idStr s \<noteq> [] \<and> list_all isDigit (idStr s)
          then (case parseInt (idStr s) of
                  Some n \<Rightarrow> x = JNum n \<or> x = JStr (idStr s)
                | None \<Rightarrow> x = JStr (idStr s))
          else x = JStr (idStr s)
      | JOther s \<Rightarrow>
          if idStr s \<noteq> [] \<and> list_all isDigit (idStr s)
          then (case parseInt (idStr s) of
                  Some n \<Rightarrow> x = JNum n \<or> x = JStr (idStr s)
                | None \<Rightarrow> x = JStr (idStr s))
          else x = JStr (idStr s))"

text \<open>The filter \<open>{id: idQuery, role: {$in: ['assistant', 'admin']}}\<close>.\<close>

definition assistantsFilter :: "js_val \<Rightarrow> user \<Rightarrow> bool" where
  "assistantsFilter v u \<longleftrightarrow> idQuery v (uid u) \<and> role u \<in> set [''assistant'', ''admin'']"

definition assistants_patch :: "db \<Rightarrow> devices_request \<Rightarrow> devices_response \<times> db" where
  "assistants_patch d req =
     (if \<not> truthy (body_id req) then (DevError 400 ''invalid_id'', d)
      else
        (case parseIntVal (body_allowed_devices req) of
           None \<Rightarrow> (DevError 400 ''invalid_allowed_devices'', d)
         | Some allowed \<Rightarrow>
             if allowed \<le> 0 then (DevError 400 ''invalid_allowed_devices'', d)
             else
               (DevSuccess,
                d\<lparr>users :=
                    updateOne (assistantsFilter (body_id req))
                      (setAllowedDevices allowed) (users d)\<rparr>)))"

definition assistants_delete :: "db \<Rightarrow> devices_request \<Rightarrow> devices_response \<times> db" where
  "assistants_delete d req =
     (case query_id req of
        None \<Rightarrow> (DevError 400 ''invalid_parameters'', d)
      | Some rawId \<Rightarrow>
          (case query_device_id req of
             None \<Rightarrow> (DevError 400 ''invalid_parameters'', d)
           | Some did \<Rightarrow>
               if rawId = [] \<or> did = [] then (DevError 400 ''invalid_parameters'', d)
               else
                 (DevSuccess,
                  d\<lparr>users :=
                      updateOne (assistantsFilter (JStr rawId))
                        (pullDevice did) (users d)\<rparr>)))"

definition assistants_devices_handler :: "bool \<Rightarrow> db \<Rightarrow> devices_request \<Rightarrow> devices_response \<times> db" where
  "assistants_devices_handler = devices_handler assistants_patch assistants_delete"

section \<open>Upload key mint: \<open>pages/api/upload/r2-signed-url.js\<close>\<close>

text \<open>
  From outside: whether the four settings of the object store are present, \<open>Date.now()\<close>,
  the string \<open>Math.random().toString(36)\<close>, and the signer (\<open>None\<close> when it throws).
\<close>

record mint_env =
  mint_configured :: bool
  dateNow :: int
  random36 :: string
  getSignedUrl :: "string \<Rightarrow> string option"

record mint_request =
  mmethod :: string
  fileName :: js_val
  contentType :: js_val

text \<open>\<open>MintOk signedUrl key\<close> is the answer \<open>{signedUrl, key}\<close>.\<close>

datatype mint_response = MintError nat string | MintOk string string

text \<open>The class \<open>[a-zA-Z0-9._-]\<close> of line 59.\<close>

definition nameChar :: "char \<Rightarrow> bool" where
  "nameChar c \<longleftrightarrow>
     c \<in> set ''abcdefghijklmnopqrstuvwxyzABCDEFGHIJKLMNOPQRSTUVWXYZ0123456789._-''"

definition sanitizedName :: "string \<Rightarrow> string" where
  "sanitizedName f = map (\<lambda>c. if nameChar c then c else CHR ''_'') f"

text \<open>\<open>s.substring(2, 10)\<close>\<close>

definition randomStr :: "mint_env \<Rightarrow> string" where
  "randomStr env = take 8 (drop 2 (random36 env))"

text \<open>Lines 57 to 60.\<close>

definition mintKey :: "mint_env \<Rightarrow> string \<Rightarrow> string" where
  "mintKey env f =
     ''videos/'' @ showInt (dateNow env) @ ''_'' @ randomStr env @ ''_'' @ sanitizedName f"

text \<open>
  The handler. A \<open>fileName\<close> that is truthy and not a string has no \<open>replace\<close>, and the
  error ends in the \<open>catch\<close> of line 110 as does an error of the signer.
\<close>

definition r2_signed_url_handler :: "mint_env \<Rightarrow> mint_request \<Rightarrow> mint_response" where
  "r2_signed_url_handler env req =
     (if mmethod req \<noteq> ''POST'' then MintError 405 ''Method not allowed''
      else if \<not> mint_configured env then MintError 500 ''R2 configuration is missing''
      else if \<not> truthy (fileName req) \<or> \<not> truthy (contentType req)
        then MintError 400 ''fileName and contentType are required''
      else
        (case fileName req of
           JStr f \<Rightarrow>
             (case getSignedUrl env (mintKey env f) of
                None \<Rightarrow> MintError 500 ''Failed to generate signed URL''
              | Some url \<Rightarrow> MintOk url (mintKey env f))
         | _ \<Rightarrow> MintError 500 ''Failed to generate signed URL''))"

section \<open>Example stores and requests\<close>




definition capped :: "int \<Rightarrow> device list \<Rightarrow> device_limitations option" where
  "capped n ds = Some \<lparr>allowed_devices = Some n, dl_last_login = None, devices = Some ds\<rparr>"


text \<open>The record the handler pushes for device \<open>A\<close> of that request.\<close>

definition deviceA :: device where
  "deviceA =
     \<lparr>device_id = Some ''A'', ip = Some ''203.0.113.9'', browser = Some ''Firefox'',
      os = Some ''Linux'', device_type = Some ''desktop'',
      first_login = Some ''02/11/2026 at 09:30 PM'',
      last_login = Some ''02/11/2026 at 09:30 PM''\<rparr>"



text \<open>The document of a collection that a lookup by \<open>_id\<close> returns.\<close>

definition userById :: "db \<Rightarrow> nat \<Rightarrow> user option" where
  "userById d i = find (\<lambda>x. oid x = i) (users d)"




text \<open>
  What a document of the users collection holds besides its device list, and besides its
  allowed number of devices; the fields of the sub-document are read as the store gives
  them (absent when there is no sub-document).
\<close>

definition storedDevices :: "user \<Rightarrow> device list option" where
  "storedDevices u = (case limitations u of None \<Rightarrow> None | Some l \<Rightarrow> devices l)"

definition storedLastLogin :: "user \<Rightarrow> string option" where
  "storedLastLogin u = (case limitations u of None \<Rightarrow> None | Some l \<Rightarrow> dl_last_login l)"

definition storedAllowed :: "user \<Rightarrow> int option" where
  "storedAllowed u = (case limitations u of None \<Rightarrow> None | Some l \<Rightarrow> allowed_devices l)"

definition account :: "user \<Rightarrow> user" where
  "account u = u\<lparr>limitations := None\<rparr>"

text \<open>An account of role student with two registered devices, and the requests of an admin.\<close>

definition deviceB :: device where
  "deviceB = deviceA\<lparr>device_id := Some ''B''\<rparr>"

definition pupil :: "int \<Rightarrow> device list \<Rightarrow> user" where
  "pupil n ds =
     \<lparr>oid = 2, uid = JNum 41, password = ''hash:pw'', role = ''student'', uname = ''Omar'',
      account_state = Some ''Activated'', limitations = capped n ds\<rparr>"

definition pupilDb :: "int \<Rightarrow> device list \<Rightarrow> db" where
  "pupilDb n ds = \<lparr>users = [pupil n ds], students = [], subscription = None\<rparr>"

definition patchAllowed :: "js_val \<Rightarrow> devices_request" where
  "patchAllowed v =
     \<lparr>dmethod = ''PATCH'', auth = AuthUser ''admin'', body_id = JNum 41,
      body_allowed_devices = v, query_id = None, query_device_id = None\<rparr>"


text \<open>The upload of a file named \<open>my video (1).mp4\<close>.\<close>

definition mintEnv :: mint_env where
  "mintEnv =
     \<lparr>mint_configured = True, dateNow = 1700000000000, random36 = ''0.k3j9x0a7bq2'',
      getSignedUrl = (\<lambda>k. Some (''https://r2.example/'' @ k))\<rparr>"

definition mintRequest :: mint_request where
  "mintRequest =
     \<lparr>mmethod = ''POST'', fileName = JStr ''my video (1).mp4'', contentType = JStr ''video/mp4''\<rparr>"

section \<open>Properties of the streaming proxy\<close>

lemma digit_not_space: "isDigit c \<Longrightarrow> \<not> isSpace c"
  by (auto simp: isDigit_def isSpace_def)

lemma digit_not_sign: "isDigit c \<Longrightarrow> c \<noteq> CHR ''-'' \<and> c \<noteq> CHR ''+''"
  by (auto simp: isDigit_def)

lemma parseInt_Nil: "parseInt [] = None"
  by (simp add: parseInt_def)

lemma parseInt_digits:
  assumes "g \<noteq> []" "list_all isDigit g"
  shows "parseInt g = Some (int (digitsVal g))"
proof -
  from assms have c: "isDigit (hd g)" by (cases g) auto
  have tw: "takeWhile isDigit g = g"
    using assms(2) by (simp add: takeWhile_eq_all_conv list_all_iff)
  have dw: "dropWhile isSpace g = g"
    using assms(1) digit_not_space[OF c] by (cases g) auto
  show ?thesis
    using digit_not_sign[OF c] assms(1) by (simp add: parseInt_def dw tw)
qed

lemma groupInt_Some: "parseInt g = Some n \<Longrightarrow> groupInt g = n"
  by (simp add: groupInt_def)

lemma matchRange_digits:
  assumes "list_all isDigit g1" "list_all isDigit g2"
  shows "matchRange (''bytes='' @ g1 @ ''-'' @ g2) = Some (g1, g2)"
proof -
  have nd: "\<not> isDigit CHR ''-''" by (simp add: isDigit_def)
  have d: "dropWhile isDigit (g1 @ CHR ''-'' # g2) = CHR ''-'' # g2"
    using assms(1) nd by (simp add: dropWhile_append2 list_all_iff)
  have t: "takeWhile isDigit (g1 @ CHR ''-'' # g2) = g1"
    using assms(1) nd by (simp add: takeWhile_append2 list_all_iff)
  show ?thesis using d t assms(2) by (simp add: matchRange_def)
qed

lemma videos_handler_range:
  assumes "vmethod req = ''GET'' \<or> vmethod req = ''HEAD''" "authorized req"
    "configured env" "key req \<noteq> []" "range req = Some h" "h \<noteq> []"
  shows "videos_handler env req = rangeRequest env req (joinSlash (key req)) h"
  using assms by (auto simp: videos_handler_def)

text \<open>
  Claim C2. A request \<open>Range: bytes=start-end\<close> with \<open>start \<le> end < totalSize\<close>, on an
  object the store serves, is answered with status 206, the header \<open>Content-Range\<close>
  equal to \<open>bytes start-end/totalSize\<close> and \<open>Content-Length\<close> equal to
  \<open>end - start + 1\<close>; the body is what the store returns for that range. The two
  numbers are what \<open>parseInt\<close> reads from the digits of the header.
\<close>
theorem range_within_bounds_206:
  assumes reach: "vmethod req = ''GET'' \<or> vmethod req = ''HEAD''" "authorized req"
      "configured env" "key req \<noteq> []"
    and hdr: "range req = Some (''bytes='' @ g1 @ ''-'' @ g2)"
    and digits: "list_all isDigit g1" "list_all isDigit g2"
    and vals: "parseInt g1 = Some start" "parseInt g2 = Some end"
    and head: "headObject env (joinSlash (key req)) = Inr totalSize"
    and bounds: "start \<le> end" "end < int totalSize"
    and get: "getObject env (joinSlash (key req))
                (Some (''bytes='' @ showInt start @ ''-'' @ showInt end)) = Inr (stream, n)"
  shows "vstatus (videos_handler env req) = 206
       \<and> contentRange (videos_handler env req)
           = Some (''bytes '' @ showInt start @ ''-'' @ showInt end @ ''/'' @ showInt (int totalSize))
       \<and> contentLength (videos_handler env req) = Some (end - start + 1)
       \<and> vbody (videos_handler env req) = (if vmethod req = ''HEAD'' then None else Some stream)"
proof -
  have ne: "g1 \<noteq> []" "g2 \<noteq> []" using vals parseInt_Nil by auto
  have m: "matchRange (''bytes='' @ g1 @ ''-'' @ g2) = Some (g1, g2)"
    using digits by (rule matchRange_digits)
  have b: "rangeBounds (g1, g2) (int totalSize) = Some (start, end)"
    using ne vals by (simp add: rangeBounds_def groupInt_Some)
  have "videos_handler env req
          = rangeRequest env req (joinSlash (key req)) (''bytes='' @ g1 @ ''-'' @ g2)"
    using reach hdr by (intro videos_handler_range) auto
  then show ?thesis
    using m b head bounds get by (simp add: rangeRequest_def Let_def)
qed

text \<open>The ten-byte object and \<open>bytes=2-5\<close>: 206, four bytes, \<open>bytes 2-5/10\<close>.\<close>
theorem range_within_bounds_206_witness:
  "vstatus (videos_handler tenByteStore (rangeGet ''bytes=2-5'')) = 206
   \<and> contentRange (videos_handler tenByteStore (rangeGet ''bytes=2-5'')) = Some ''bytes 2-5/10''
   \<and> contentLength (videos_handler tenByteStore (rangeGet ''bytes=2-5'')) = Some 4"
  using range_within_bounds_206 [of "rangeGet ''bytes=2-5''" tenByteStore "''2''" "''5''" 2 5 10
      "''bytes=2-5''" 10]
  by (simp add: rangeGet_def tenByteStore_def isDigit_def isSpace_def parseInt_def digitsVal_def
      digitVal_def showInt_def showNat.simps digitChar_def)



text \<open>
  Claim C3, as the code has it. A request \<open>Range: bytes=-N\<close> with \<open>N \<ge> 1\<close> on an object
  of \<open>totalSize \<ge> 1\<close> bytes is answered with status 206, \<open>start = max 0 (totalSize - N)\<close>,
  \<open>end = totalSize - 1\<close> and \<open>Content-Length = min N totalSize\<close>, also when
  \<open>N > totalSize\<close>. With \<open>N = 0\<close>, or on an empty object, the computed start is not
  below \<open>totalSize\<close> and the answer is 416 with \<open>Content-Range: bytes */totalSize\<close>.
\<close>
theorem suffix_range_last_bytes:
  assumes reach: "vmethod req = ''GET'' \<or> vmethod req = ''HEAD''" "authorized req"
      "configured env" "key req \<noteq> []"
    and hdr: "range req = Some (''bytes=-'' @ g2)"
    and digits: "list_all isDigit g2"
    and vals: "parseInt g2 = Some N"
    and head: "headObject env (joinSlash (key req)) = Inr totalSize"
  shows "(1 \<le> N \<and> 1 \<le> totalSize
            \<and> getObject env (joinSlash (key req))
                 (Some (''bytes='' @ showInt (max 0 (int totalSize - N)) @ ''-''
                        @ showInt (int totalSize - 1))) = Inr (stream, n)
          \<longrightarrow> vstatus (videos_handler env req) = 206
            \<and> contentRange (videos_handler env req)
                = Some (''bytes '' @ showInt (max 0 (int totalSize - N)) @ ''-''
                        @ showInt (int totalSize - 1) @ ''/'' @ showInt (int totalSize))
            \<and> contentLength (videos_handler env req) = Some (min N (int totalSize))
            \<and> vbody (videos_handler env req)
                = (if vmethod req = ''HEAD'' then None else Some stream))
       \<and> (N = 0 \<or> totalSize = 0
          \<longrightarrow> videos_handler env req = rangeNotSatisfiable (int totalSize))"
proof -
  have ne: "g2 \<noteq> []" using vals parseInt_Nil by auto
  have m: "matchRange (''bytes=-'' @ g2) = Some ([], g2)"
    using matchRange_digits [of "[]" g2] digits by simp
  have b: "rangeBounds ([], g2) (int totalSize)
             = Some (max 0 (int totalSize - N), int totalSize - 1)"
    using ne vals by (simp add: rangeBounds_def groupInt_Some)
  have h: "videos_handler env req
          = rangeRequest env req (joinSlash (key req)) (''bytes=-'' @ g2)"
    using reach hdr by (intro videos_handler_range) auto
  have N0: "0 \<le> N"
    using parseInt_digits [OF ne digits] vals by simp
  have ok: "1 \<le> N \<Longrightarrow> 1 \<le> totalSize \<Longrightarrow>
        getObject env (joinSlash (key req))
                 (Some (''bytes='' @ showInt (max 0 (int totalSize - N)) @ ''-''
                        @ showInt (int totalSize - 1))) = Inr (stream, n) \<Longrightarrow>
        vstatus (videos_handler env req) = 206
            \<and> contentRange (videos_handler env req)
                = Some (''bytes '' @ showInt (max 0 (int totalSize - N)) @ ''-''
                        @ showInt (int totalSize - 1) @ ''/'' @ showInt (int totalSize))
            \<and> contentLength (videos_handler env req) = Some (min N (int totalSize))
            \<and> vbody (videos_handler env req)
                = (if vmethod req = ''HEAD'' then None else Some stream)"
  proof -
    assume a: "1 \<le> N" "1 \<le> totalSize" and g: "getObject env (joinSlash (key req))
                 (Some (''bytes='' @ showInt (max 0 (int totalSize - N)) @ ''-''
                        @ showInt (int totalSize - 1))) = Inr (stream, n)"
    have lt: "\<not> max 0 (int totalSize - N) \<ge> int totalSize" using a by auto
    have len: "int totalSize - 1 - max 0 (int totalSize - N) + 1 = min N (int totalSize)"
      using a by auto
    show ?thesis
      using h m b head lt g len by (simp add: rangeRequest_def Let_def)
  qed
  have bad: "N = 0 \<or> totalSize = 0 \<Longrightarrow>
      videos_handler env req = rangeNotSatisfiable (int totalSize)"
  proof -
    assume a: "N = 0 \<or> totalSize = 0"
    have ge: "max 0 (int totalSize - N) \<ge> int totalSize" using a N0 by auto
    show ?thesis using h m b head ge by (simp add: rangeRequest_def Let_def)
  qed
  from ok bad show ?thesis by blast
qed

text \<open>The ten-byte object and \<open>bytes=-4\<close>: the last four bytes, \<open>6-9\<close>.\<close>
theorem suffix_range_last_bytes_witness:
  "vstatus (videos_handler tenByteStore (rangeGet ''bytes=-4'')) = 206
   \<and> contentRange (videos_handler tenByteStore (rangeGet ''bytes=-4'')) = Some ''bytes 6-9/10''
   \<and> contentLength (videos_handler tenByteStore (rangeGet ''bytes=-4'')) = Some 4"
  using suffix_range_last_bytes [of "rangeGet ''bytes=-4''" tenByteStore "''4''" 4 10
      "''bytes=6-9''" 10]
  by (simp add: rangeGet_def tenByteStore_def isDigit_def isSpace_def parseInt_def digitsVal_def
      digitVal_def showInt_def showNat.simps digitChar_def)

text \<open>
  The suffix of length zero on the ten-byte object is answered with 416, not with a 206
  of length zero.
\<close>
theorem suffix_zero_counterexample:
  "vstatus (videos_handler tenByteStore (rangeGet ''bytes=-0'')) = 416
   \<and> contentLength (videos_handler tenByteStore (rangeGet ''bytes=-0'')) \<noteq> Some 0"
  by (simp add: videos_handler_def rangeRequest_def rangeGet_def tenByteStore_def matchRange_def
      rangeBounds_def groupInt_def rangeNotSatisfiable_def Let_def
      isDigit_def isSpace_def parseInt_def digitsVal_def digitVal_def)

text \<open>
  A header that does not match, and a range that starts at or beyond the end of the
  object, are answered with 416 and \<open>Content-Range: bytes */totalSize\<close>.
\<close>

lemma unparseable_range_416:
  assumes "headObject env k = Inr totalSize" "matchRange h = None"
  shows "rangeRequest env req k h = rangeNotSatisfiable (int totalSize)"
  using assms by (simp add: rangeRequest_def)

lemma start_beyond_size_416:
  assumes "headObject env k = Inr totalSize" "matchRange h = Some m"
    and "rangeBounds m (int totalSize) = Some (start, end)" "start \<ge> int totalSize"
  shows "rangeRequest env req k h = rangeNotSatisfiable (int totalSize)"
  using assms by (simp add: rangeRequest_def Let_def)

text \<open>
  Claim C4. The handler answers 416 also when only the end of a \<open>bytes=start-end\<close>
  request lies beyond the object: \<open>bytes=0-100\<close> on the ten-byte object gives 416 with
  \<open>Content-Range: bytes */10\<close>, where a clamped range \<open>0-9\<close> and status 206 are
  expected.
\<close>
theorem range_end_beyond_size_416:
  "vstatus (videos_handler tenByteStore (rangeGet ''bytes=0-100'')) = 416
   \<and> contentRange (videos_handler tenByteStore (rangeGet ''bytes=0-100'')) = Some ''bytes */10''"
  by (simp add: videos_handler_def rangeRequest_def rangeGet_def tenByteStore_def matchRange_def
      rangeBounds_def groupInt_def rangeNotSatisfiable_def Let_def
      isDigit_def isSpace_def parseInt_def digitsVal_def digitVal_def
      showInt_def showNat.simps digitChar_def)

section \<open>Properties of the authentication handler\<close>

lemma updateOne_find:
  "find P (updateOne P f xs) = map_option f (find P xs)" if "\<And>x. P x \<Longrightarrow> P (f x)"
  using that by (induction xs) auto


lemma find_exists: "x \<in> set xs \<Longrightarrow> P x \<Longrightarrow> \<exists>y. find P xs = Some y \<and> P y"
  by (induction xs) auto






lemma findIndex_None: "findIndex P xs = None \<longleftrightarrow> (\<forall>x\<in>set xs. \<not> P x)"
  by (induction xs) auto

lemma findIndex_Some: "findIndex P xs = Some i \<Longrightarrow> i < length xs \<and> P (xs ! i)"
  by (induction xs arbitrary: i) (auto split: if_splits)


lemma userById_written:
  assumes "u \<in> set (users d)"
  shows "map_option userDevices (userById (writeLimitations env u ds d) (oid u)) = Some ds"
proof -
  obtain y where y: "find (\<lambda>x. oid x = oid u) (users d) = Some y"
    using find_exists [OF assms, of "\<lambda>x. oid x = oid u"] by auto
  show ?thesis
    by (simp add: userById_def writeLimitations_def updateOne_find y userDevices_def)
qed






lemma orElse_present: "s \<noteq> [] \<Longrightarrow> orElse (Some s) d = s"
  by (simp add: orElse_def)








text \<open>
  The device ids of a list stay pairwise different under the registration: a record is
  appended only for an id that is not in the list, and the record of a known device keeps
  its id.
\<close>

lemma deviceGate_ids_distinct:
  assumes run: "deviceGate env req u d = (None, d')"
    and mem: "u \<in> set (users d)"
    and dist: "distinct (map device_id (userDevices u))"
  shows "\<exists>ds. map_option userDevices (userById d' (oid u)) = Some ds
            \<and> distinct (map device_id ds)"
proof (cases "findIndex (\<lambda>x. device_id x = Some (incomingDeviceId req)) (userDevices u)")
  case None
  then have d': "d' = writeLimitations env u (userDevices u @ [newDevice env req]) d"
    using run by (auto simp: deviceGate_def split: if_splits)
  have "Some (incomingDeviceId req) \<notin> set (map device_id (userDevices u))"
    using None by (auto simp: findIndex_None)
  then have "distinct (map device_id (userDevices u @ [newDevice env req]))"
    using dist by (simp add: newDevice_def)
  then show ?thesis using userById_written [OF mem] d' by blast
next
  case (Some i)
  then have d': "d' = writeLimitations env u
      ((userDevices u)[i := touchDevice env req (userDevices u ! i)]) d"
    using run by (simp add: deviceGate_def)
  have i: "i < length (userDevices u)" using findIndex_Some [OF Some] by simp
  have "map device_id ((userDevices u)[i := touchDevice env req (userDevices u ! i)])
      = (map device_id (userDevices u))[i := device_id (userDevices u ! i)]"
    by (simp add: map_update touchDevice_def)
  also have "\<dots> = map device_id (userDevices u)"
    using i by (simp add: list_update_same_conv)
  finally have "distinct (map device_id ((userDevices u)[i := touchDevice env req (userDevices u ! i)]))"
    using dist by simp
  then show ?thesis using userById_written [OF mem] d' by blast
qed

section \<open>Properties of the device administration\<close>

lemma updateOne_map:
  "(\<And>x. g (f x) = g x) \<Longrightarrow> map g (updateOne P f xs) = map g xs"
  by (induction xs) auto




lemma setAllowedDevices_frame:
  "storedDevices (setAllowedDevices n u) = storedDevices u"
  "storedLastLogin (setAllowedDevices n u) = storedLastLogin u"
  "account (setAllowedDevices n u) = account u"
  "userDevices (setAllowedDevices n u) = userDevices u"
  "storedAllowed (setAllowedDevices n u) = Some n"
  by (auto simp: setAllowedDevices_def storedDevices_def storedLastLogin_def account_def
      userDevices_def storedAllowed_def split: option.splits)

lemma devices_handler_cases:
  "devices_handler patch delete enabled d req = (r, d') \<Longrightarrow> dmethod req = ''PATCH'' \<Longrightarrow>
     d' = d \<or> patch d req = (r, d')"
  by (auto simp: devices_handler_def split: if_splits auth_result.splits)

lemma students_patch_cases:
  "students_patch d req = (r, d') \<Longrightarrow>
     d' = d \<or> (\<exists>P n. d' = d\<lparr>users := updateOne P (setAllowedDevices n) (users d)\<rparr>)"
  by (auto simp: students_patch_def split: if_splits option.splits)

lemma assistants_patch_cases:
  "assistants_patch d req = (r, d') \<Longrightarrow>
     d' = d \<or> (\<exists>P n. d' = d\<lparr>users := updateOne P (setAllowedDevices n) (users d)\<rparr>)"
  by (auto simp: assistants_patch_def split: if_splits option.splits)

text \<open>
  Claim C7. A \<open>PATCH\<close> on either device endpoint, whatever it answers, leaves the device
  list of every account as it was, also when the new \<open>allowed_devices\<close> is below the
  number of registered devices; the last login, every field outside
  \<open>device_limitations\<close> and the other collections are unchanged too, so
  \<open>allowed_devices\<close> is the only field written.
\<close>
theorem patch_keeps_devices:
  assumes run: "students_devices_handler enabled d req = (r, d')
              \<or> assistants_devices_handler enabled d req = (r, d')"
    and patch: "dmethod req = ''PATCH''"
  shows "map storedDevices (users d') = map storedDevices (users d)
       \<and> map userDevices (users d') = map userDevices (users d)
       \<and> map storedLastLogin (users d') = map storedLastLogin (users d)
       \<and> map account (users d') = map account (users d)
       \<and> students d' = students d \<and> subscription d' = subscription d"
proof -
  have "d' = d \<or> (\<exists>P n. d' = d\<lparr>users := updateOne P (setAllowedDevices n) (users d)\<rparr>)"
    using run patch
    by (auto simp: students_devices_handler_def assistants_devices_handler_def
        dest!: devices_handler_cases dest: students_patch_cases assistants_patch_cases)
  then show ?thesis
    by (auto simp: updateOne_map setAllowedDevices_frame)
qed

lemma pupil_patch:
  "students_devices_handler True (pupilDb 2 ds) (patchAllowed (JStr ''1''))
     = (DevSuccess, pupilDb 1 ds)"
  by (simp add: students_devices_handler_def devices_handler_def patchAllowed_def
      students_patch_def parseIntVal_def parseInt_def isSpace_def isDigit_def digitsVal_def
      digitVal_def pupilDb_def pupil_def studentsFilter_def setAllowedDevices_def capped_def)

text \<open>
  A student with two devices and \<open>allowed_devices = 2\<close>: setting it to 1 succeeds and
  both devices stay.
\<close>
theorem patch_keeps_devices_witness:
  "students_devices_handler True (pupilDb 2 [deviceA, deviceB]) (patchAllowed (JStr ''1''))
     = (DevSuccess, pupilDb 1 [deviceA, deviceB])
   \<and> map storedAllowed (users (pupilDb 1 [deviceA, deviceB])) = [Some 1]
   \<and> map storedDevices (users (pupilDb 1 [deviceA, deviceB])) = [Some [deviceA, deviceB]]"
  using patch_keeps_devices [of True "pupilDb 2 [deviceA, deviceB]" "patchAllowed (JStr ''1'')"
      DevSuccess "pupilDb 1 [deviceA, deviceB]"] pupil_patch [of "[deviceA, deviceB]"]
  by (simp add: patchAllowed_def)
     (simp add: pupilDb_def pupil_def capped_def storedAllowed_def storedDevices_def)









section \<open>Properties of the upload key mint\<close>

lemma digitChar_digit: "n < 10 \<Longrightarrow> isDigit (digitChar n)"
proof -
  assume "n < 10"
  then have "n \<in> {0, 1, 2, 3, 4, 5, 6, 7, 8, 9}" by auto
  then show ?thesis by (auto simp: digitChar_def isDigit_def)
qed

lemma showNat_digits: "\<forall>c \<in> set (showNat n). isDigit c"
proof (induction n rule: showNat.induct)
  case (1 n)
  show ?case
  proof (cases "n < 10")
    case True
    then show ?thesis by (subst showNat.simps) (simp add: digitChar_digit)
  next
    case False
    then show ?thesis using 1 by (subst showNat.simps) (simp add: digitChar_digit)
  qed
qed

lemma digit_nameChar: "isDigit c \<Longrightarrow> nameChar c"
  by (auto simp: isDigit_def nameChar_def)

lemma showInt_nameChars: "\<forall>c \<in> set (showInt i). nameChar c"
  using showNat_digits digit_nameChar by (auto simp: showInt_def nameChar_def)

lemma sanitizedName_chars: "\<forall>c \<in> set (sanitizedName f). nameChar c"
  by (auto simp: sanitizedName_def nameChar_def)

text \<open>
  Claim C9. Whenever the endpoint answers with a key, \<open>fileName\<close> is a string and the key
  is \<open>videos/\<close>, the timestamp, \<open>_\<close>, the random suffix, \<open>_\<close> and the sanitized
  name, in which every character outside \<open>[a-zA-Z0-9._-]\<close> is replaced by \<open>_\<close>. The key
  starts with \<open>videos/\<close>, and, the random suffix being made of digits of base 36, it has
  no character outside \<open>[a-zA-Z0-9._/-]\<close>.
\<close>
theorem minted_key_form:
  assumes "r2_signed_url_handler env req = MintOk url k"
  shows "fileName req = JStr (stringOf (fileName req))
       \<and> k = ''videos/'' @ showInt (dateNow env) @ ''_'' @ randomStr env @ ''_''
              @ sanitizedName (stringOf (fileName req))
       \<and> length (sanitizedName (stringOf (fileName req))) = length (stringOf (fileName req))
       \<and> (\<forall>i < length (stringOf (fileName req)).
             sanitizedName (stringOf (fileName req)) ! i
               = (if nameChar (stringOf (fileName req) ! i) then stringOf (fileName req) ! i
                  else CHR ''_''))
       \<and> take 7 k = ''videos/''
       \<and> ((\<forall>c \<in> set (randomStr env). c \<in> set ''0123456789abcdefghijklmnopqrstuvwxyz'')
            \<longrightarrow> (\<forall>c \<in> set k. nameChar c \<or> c = CHR ''/''))"
proof -
  obtain f where f: "fileName req = JStr f" and k: "k = mintKey env f"
    using assms
    by (auto simp: r2_signed_url_handler_def split: if_splits js_val.splits option.splits)
  have base: "\<And>c. c \<in> set ''0123456789abcdefghijklmnopqrstuvwxyz'' \<Longrightarrow> nameChar c"
    by (auto simp: nameChar_def)
  have v: "\<And>c. c \<in> set ''videos/'' \<Longrightarrow> nameChar c \<or> c = CHR ''/''"
    by (auto simp: nameChar_def)
  have u: "nameChar CHR ''_''" by (simp add: nameChar_def)
  have chars: "(\<forall>c \<in> set (randomStr env). c \<in> set ''0123456789abcdefghijklmnopqrstuvwxyz'')
            \<longrightarrow> (\<forall>c \<in> set k. nameChar c \<or> c = CHR ''/'')"
  proof (intro impI ballI)
    fix c
    assume r: "\<forall>c \<in> set (randomStr env). c \<in> set ''0123456789abcdefghijklmnopqrstuvwxyz''"
      and c: "c \<in> set k"
    from c have "c \<in> set ''videos/'' \<or> c \<in> set (showInt (dateNow env)) \<or> c = CHR ''_''
        \<or> c \<in> set (randomStr env) \<or> c \<in> set (sanitizedName f)"
      unfolding k mintKey_def by auto
    then show "nameChar c \<or> c = CHR ''/''"
      using v showInt_nameChars u r base sanitizedName_chars by blast
  qed
  have form: "k = ''videos/'' @ showInt (dateNow env) @ ''_'' @ randomStr env @ ''_''
              @ sanitizedName f"
    using k by (simp add: mintKey_def)
  have pre: "take 7 k = ''videos/''" unfolding form by simp
  have pt: "\<forall>i < length f. sanitizedName f ! i = (if nameChar (f ! i) then f ! i else CHR ''_'')"
    by (simp add: sanitizedName_def)
  have len: "length (sanitizedName f) = length f" by (simp add: sanitizedName_def)
  show ?thesis
    using f form pre pt len chars by (simp add: stringOf_def)
qed

text \<open>The key minted for \<open>my video (1).mp4\<close>.\<close>
theorem minted_key_form_witness:
  "r2_signed_url_handler mintEnv mintRequest
     = MintOk ''https://r2.example/videos/1700000000000_k3j9x0a7_my_video__1_.mp4''
         ''videos/1700000000000_k3j9x0a7_my_video__1_.mp4''
   \<and> list_all (\<lambda>c. nameChar c \<or> c = CHR ''/'')
        ''videos/1700000000000_k3j9x0a7_my_video__1_.mp4''"
proof -
  have t: "showInt (dateNow mintEnv) = ''1700000000000''"
    by (simp add: mintEnv_def showInt_def showNat.simps digitChar_def)
  have r: "randomStr mintEnv = ''k3j9x0a7''" by (simp add: randomStr_def mintEnv_def)
  have s: "sanitizedName ''my video (1).mp4'' = ''my_video__1_.mp4''"
    by (simp add: sanitizedName_def nameChar_def)
  have h: "r2_signed_url_handler mintEnv mintRequest
     = MintOk ''https://r2.example/videos/1700000000000_k3j9x0a7_my_video__1_.mp4''
         ''videos/1700000000000_k3j9x0a7_my_video__1_.mp4''"
  proof -
    have e: "mint_configured mintEnv" "\<And>k. getSignedUrl mintEnv k = Some (''https://r2.example/'' @ k)"
      by (simp_all add: mintEnv_def)
    show ?thesis
      by (simp add: r2_signed_url_handler_def mintRequest_def truthy_def mintKey_def t r s e)
  qed
  from minted_key_form [OF h]
  have "(\<forall>c \<in> set (randomStr mintEnv). c \<in> set ''0123456789abcdefghijklmnopqrstuvwxyz'')
      \<longrightarrow> (\<forall>c \<in> set ''videos/1700000000000_k3j9x0a7_my_video__1_.mp4''.
            nameChar c \<or> c = CHR ''/'')"
    by (elim conjE)
  moreover have "\<forall>c \<in> set (randomStr mintEnv). c \<in> set ''0123456789abcdefghijklmnopqrstuvwxyz''"
    by (simp add: r)
  ultimately show ?thesis using h unfolding list_all_iff by blast
qed

end
